theory Spec2Isabelle
  imports Complex_Main "HOL-Library.AList"
begin

section \<open>The KYC intake form (src/src/App.tsx): data model\<close>

text \<open>
  The component \<open>KYCSubmissionWebsite\<close> keeps its whole state in React state hooks and two
  DOM references. The embedding keeps every hook as one field of a record, with the
  source's names. JavaScript values are modelled as follows: \<open>string | null\<close> and
  \<open>File | null\<close> are options, \<open>number\<close> is an integer (a natural number where the value is a
  size), a \<open>File\<close> is a record of the three properties the code and the claims look at.
\<close>

record js_file =
  file_name :: string
  file_size :: nat
  file_type :: string

text \<open>\<open>interface FormData\<close> (lines 5-8). The union of literals is a string at run time.\<close>

record FormData =
  documentType :: string
  country :: string

text \<open>
  \<open>interface FormErrors\<close> (lines 11-16) is used as a dictionary with computed keys
  (\<open>[name]\<close>, a template string). A JavaScript object is an insertion-ordered list of
  keys with values; a property set to \<open>undefined\<close> stays a key of the object. So the
  errors are an association list whose values are optional strings: \<open>(k, None)\<close> is the
  key \<open>k\<close> holding \<open>undefined\<close>.
\<close>

type_synonym FormErrors = "(string \<times> string option) list"

text \<open>A \<open>MediaStream\<close> object is known by its identity only.\<close>

type_synonym media_stream = nat

record video_element =
  srcObject :: "media_stream option"

record canvas_element =
  canvas_width :: nat
  canvas_height :: nat

record kyc =
  currentStep :: int
  formData :: FormData
  documentFrontFile :: "js_file option"
  documentBackFile :: "js_file option"
  selfieFile :: "js_file option"
  documentFrontPreview :: "string option"
  documentBackPreview :: "string option"
  selfiePreview :: "string option"
  errors :: FormErrors
  isSubmitting :: bool
  submitSuccess :: bool
  showCamera :: bool
  stream :: "media_stream option"
  cameraError :: "string option"
  videoRef :: "video_element option"
  canvasRef :: "canvas_element option"
  ended :: "media_stream set"

text \<open>
  The last three fields are not React state. \<open>videoRef\<close> and \<open>canvasRef\<close> are the
  \<open>current\<close> values of the two element references the camera code reads (lines 39-40);
  \<open>ended\<close> is the set of streams all of whose tracks have been stopped by
  \<open>track.stop()\<close>, the only effect the code has on the camera device.
\<close>

definition initial :: kyc where
  "initial = \<lparr> currentStep = 1,
               formData = \<lparr> documentType = ''passport'', country = '''' \<rparr>,
               documentFrontFile = None, documentBackFile = None, selfieFile = None,
               documentFrontPreview = None, documentBackPreview = None, selfiePreview = None,
               errors = [], isSubmitting = False, submitSuccess = False,
               showCamera = False, stream = None, cameraError = None,
               videoRef = None, canvasRef = None, ended = {} \<rparr>"

subsection \<open>JavaScript helpers\<close>

text \<open>Property read \<open>obj[k]\<close>: \<open>undefined\<close> (None) when the key is absent or holds \<open>undefined\<close>.\<close>

definition js_get :: "FormErrors \<Rightarrow> string \<Rightarrow> string option" where
  "js_get obj k = (case map_of obj k of None \<Rightarrow> None | Some v \<Rightarrow> v)"

text \<open>\<open>{ ...prev, [k]: v }\<close>: the key keeps its place when present, and is appended otherwise.\<close>

definition js_set :: "string \<Rightarrow> string option \<Rightarrow> FormErrors \<Rightarrow> FormErrors" where
  "js_set k v obj = AList.update k v obj"

definition object_keys :: "FormErrors \<Rightarrow> string list" where
  "object_keys obj = map fst obj"

text \<open>Truthiness of a \<open>string | null | undefined\<close>: only a non-empty string is truthy.\<close>

definition truthy :: "string option \<Rightarrow> bool" where
  "truthy v = (case v of None \<Rightarrow> False | Some s \<Rightarrow> s \<noteq> [])"

definition toUpperCase_char :: "char \<Rightarrow> char" where
  "toUpperCase_char c =
     (let n = (of_char c :: nat) in if 97 \<le> n \<and> n \<le> 122 then char_of (n - 32) else c)"

definition toLowerCase_char :: "char \<Rightarrow> char" where
  "toLowerCase_char c =
     (let n = (of_char c :: nat) in if 65 \<le> n \<and> n \<le> 90 then char_of (n + 32) else c)"

text \<open>\<open>s.includes(sub)\<close>.\<close>

fun str_includes :: "string \<Rightarrow> string \<Rightarrow> bool" where
  "str_includes [] sub = (sub = [])"
| "str_includes (c # cs) sub = (take (length sub) (c # cs) = sub \<or> str_includes cs sub)"

section \<open>Validator (lines 55-77)\<close>

text \<open>
  Both validators build a fresh error object, replace the error state with it and
  return whether it has no keys.
\<close>

definition validateStep1 :: "kyc \<Rightarrow> bool \<times> kyc" where
  "validateStep1 s =
     (let e0 = [];
          e1 = (if country (formData s) = [] then js_set ''country'' (Some ''Country is required'') e0
                else e0);
          e2 = (if documentFrontFile s = None
                then js_set ''documentFront'' (Some ''Please upload the front of your document'') e1
                else e1);
          e3 = (if documentType (formData s) \<in> set [''id_card'', ''drivers_license'']
                   \<and> documentBackFile s = None
                then js_set ''documentBack'' (Some ''Please upload the back of your document'') e2
                else e2)
      in (length (object_keys e3) = 0, s\<lparr>errors := e3\<rparr>))"

definition validateStep2 :: "kyc \<Rightarrow> bool \<times> kyc" where
  "validateStep2 s =
     (let e0 = [];
          e1 = (if selfieFile s = None then js_set ''selfie'' (Some ''Please capture a selfie'') e0
                else e0)
      in (length (object_keys e1) = 0, s\<lparr>errors := e1\<rparr>))"

section \<open>Form State Holder: \<open>handleInputChange\<close> (lines 79-85)\<close>

text \<open>
  \<open>setFormData(prev => ({ ...prev, [name]: value }))\<close> on the two-field record: the
  names the page's inputs carry are \<open>documentType\<close> and \<open>country\<close>; a property of any
  other name would be added to the object and never read, so it is left out.
\<close>

definition setField :: "string \<Rightarrow> string \<Rightarrow> FormData \<Rightarrow> FormData" where
  "setField name v fd =
     (if name = ''documentType'' then fd\<lparr>documentType := v\<rparr>
      else if name = ''country'' then fd\<lparr>country := v\<rparr>
      else fd)"

definition handleInputChange :: "string \<Rightarrow> string \<Rightarrow> kyc \<Rightarrow> kyc" where
  "handleInputChange name v s =
     (let s1 = s\<lparr>formData := setField name v (formData s)\<rparr>
      in if truthy (js_get (errors s) name)
         then s1\<lparr>errors := js_set name None (errors s1)\<rparr>
         else s1)"

section \<open>Browser callbacks still to come\<close>

text \<open>
  Four facilities of the browser call back later: the file reader (\<open>onloadend\<close>), the
  two timers, the camera acquisition awaited by \<open>startCamera\<close>, and the canvas encoder
  (\<open>toBlob\<close>). Each handler returns, beside the new state, the callbacks it has
  registered. An encoder callback carries the arguments given to \<open>toBlob\<close> and the
  \<open>stream\<close> value its closure holds: the callback calls the \<open>stopCamera\<close> of the render in
  which the capture button was clicked.
\<close>

datatype upload_type = Front | Back

datatype task =
    ReadFile upload_type js_file
  | AutoStartTimer
  | Acquisition
  | Encode string rat "media_stream option"
  | SubmitTimer

text \<open>
  \<open>FileReader.readAsDataURL\<close> and \<open>canvas.toDataURL\<close> produce a \<open>data:\<close> URL; what
  follows the scheme is the environment's.
\<close>

definition data_url :: "string \<Rightarrow> string" where
  "data_url rest = ''data:'' @ rest"

section \<open>File Intake: \<open>handleFileUpload\<close> (lines 87-112)\<close>

definition type_string :: "upload_type \<Rightarrow> string" where
  "type_string t = (case t of Front \<Rightarrow> ''front'' | Back \<Rightarrow> ''back'')"

text \<open>The key \<open>`document${type.charAt(0).toUpperCase() + type.slice(1)}`\<close>.\<close>

definition error_key :: "upload_type \<Rightarrow> string" where
  "error_key t =
     ''document'' @ (map toUpperCase_char (take 1 (type_string t)) @ drop 1 (type_string t))"

text \<open>The first argument is \<open>e.target.files?.[0]\<close>, undefined when no file was chosen.\<close>

definition handleFileUpload :: "js_file option \<Rightarrow> upload_type \<Rightarrow> kyc \<Rightarrow> kyc \<times> task list" where
  "handleFileUpload picked t s =
     (case picked of
        None \<Rightarrow> (s, [])
      | Some file \<Rightarrow>
          if file_size file > 5 * 1024 * 1024
          then (s\<lparr>errors := js_set (error_key t) (Some ''File size must be less than 5MB'') (errors s)\<rparr>, [])
          else (s, [ReadFile t file]))"

text \<open>
  \<open>reader.onloadend\<close>, run on the state of the moment it fires. \<open>reader.result\<close> is the
  data URL, or null when the read failed (\<open>onloadend\<close> fires in both cases).
\<close>

definition reader_onloadend :: "upload_type \<Rightarrow> js_file \<Rightarrow> string option \<Rightarrow> kyc \<Rightarrow> kyc" where
  "reader_onloadend t file result s =
     (case t of
        Front \<Rightarrow> s\<lparr>documentFrontFile := Some file,
                    documentFrontPreview := map_option data_url result,
                    errors := js_set ''documentFront'' None (errors s)\<rparr>
      | Back \<Rightarrow> s\<lparr>documentBackFile := Some file,
                   documentBackPreview := map_option data_url result,
                   errors := js_set ''documentBack'' None (errors s)\<rparr>)"

text \<open>The two removal buttons of step 1 (lines 508-511 and 558-561).\<close>

definition removeDocument :: "upload_type \<Rightarrow> kyc \<Rightarrow> kyc" where
  "removeDocument t s =
     (case t of
        Front \<Rightarrow> s\<lparr>documentFrontFile := None, documentFrontPreview := None\<rparr>
      | Back \<Rightarrow> s\<lparr>documentBackFile := None, documentBackPreview := None\<rparr>)"

section \<open>Camera Capture\<close>

subsection \<open>The environment of \<open>startCamera\<close>\<close>

record js_error =
  err_name :: string
  err_message :: string

definition Error :: "string \<Rightarrow> js_error" where
  "Error m = \<lparr> err_name = ''Error'', err_message = m \<rparr>"

text \<open>What \<open>startCamera\<close> reads of \<open>navigator\<close> and \<open>window.location\<close> (lines 120-139).\<close>

record navigator =
  has_mediaDevices :: bool
  has_legacy_getUserMedia :: bool
  has_getUserMedia :: bool
  userAgent :: string
  protocol :: string
  hostname :: string

text \<open>The constraint objects of lines 142-173.\<close>

record range =
  range_min :: "nat option"
  range_ideal :: "nat option"
  range_max :: "nat option"

datatype video_constraints =
    VideoTrue
  | VideoSpec string "range option" "range option"

record constraints =
  video :: video_constraints
  audio :: bool

definition constraintsOptions :: "constraints list" where
  "constraintsOptions =
     [ \<lparr> video = VideoSpec ''user''
                  (Some \<lparr> range_min = None, range_ideal = Some 1280, range_max = None \<rparr>)
                  (Some \<lparr> range_min = None, range_ideal = Some 720, range_max = None \<rparr>),
         audio = False \<rparr>,
       \<lparr> video = VideoSpec ''user''
                  (Some \<lparr> range_min = Some 640, range_ideal = Some 1280, range_max = Some 1920 \<rparr>)
                  (Some \<lparr> range_min = Some 480, range_ideal = Some 720, range_max = Some 1080 \<rparr>),
         audio = False \<rparr>,
       \<lparr> video = VideoSpec ''user'' None None, audio = False \<rparr>,
       \<lparr> video = VideoTrue, audio = False \<rparr> ]"

subsection \<open>\<open>startCamera\<close> (lines 114-246)\<close>

definition unsupported_message :: string where
  "unsupported_message = ''Camera API not supported in this browser. For Android devices, please try Chrome, Firefox, or Samsung Internet Browser.''"

definition https_message :: string where
  "https_message = ''Camera access on Android requires HTTPS. Please use a secure connection or try a different browser.''"

text \<open>\<open>/Android/i.test(navigator.userAgent)\<close>.\<close>

definition isAndroid :: "string \<Rightarrow> bool" where
  "isAndroid ua = str_includes (map toLowerCase_char ua) ''android''"

text \<open>The errors thrown before the first \<open>await\<close> (lines 120-139): None when none is.\<close>

definition platform_check :: "navigator \<Rightarrow> js_error option" where
  "platform_check nav =
     (if \<not> has_mediaDevices nav then
        (if \<not> has_legacy_getUserMedia nav then Some (Error unsupported_message)
         else Some (Error unsupported_message))
      else if \<not> has_getUserMedia nav then Some (Error unsupported_message)
      else if isAndroid (userAgent nav) \<and> protocol nav \<noteq> ''https:'' \<and> hostname nav \<noteq> ''localhost''
      then Some (Error https_message)
      else None)"

text \<open>
  The loop of lines 175-187 over the constraint list. \<open>gum\<close> is
  \<open>navigator.mediaDevices.getUserMedia\<close>: for a constraint object it rejects with an error
  or resolves with a stream. The result is \<open>mediaStream\<close>, \<open>lastError\<close> and the list of
  the constraint objects \<open>getUserMedia\<close> has been called with, in order.
\<close>

fun try_constraints ::
  "(constraints \<Rightarrow> js_error + media_stream) \<Rightarrow> constraints list \<Rightarrow> js_error option \<Rightarrow>
   constraints list \<Rightarrow> media_stream option \<times> js_error option \<times> constraints list" where
  "try_constraints gum [] lastError calls = (None, lastError, calls)"
| "try_constraints gum (c # cs) lastError calls =
     (case gum c of
        Inr mediaStream \<Rightarrow> (Some mediaStream, lastError, calls @ [c])
      | Inl error \<Rightarrow> try_constraints gum cs (Some error) (calls @ [c]))"

text \<open>The message built by the \<open>catch\<close> block (lines 224-240).\<close>

definition camera_error_message :: "js_error \<Rightarrow> string" where
  "camera_error_message err =
     ''Unable to access camera. '' @
     (if err_name err = ''NotAllowedError'' \<or> err_name err = ''PermissionDeniedError''
      then ''Please allow camera permissions in your browser settings.''
      else if err_name err = ''NotFoundError'' \<or> err_name err = ''OverconstrainedError''
      then ''No camera found on this device.''
      else if err_name err = ''NotReadableError'' \<or> err_name err = ''TrackStartError''
      then ''Camera is already in use by another application.''
      else if err_message err \<noteq> [] \<and> str_includes (err_message err) ''secure context''
      then ''Camera access requires a secure context (HTTPS). Please ensure you are using HTTPS.''
      else if err_message err \<noteq> [] \<and> str_includes (err_message err) ''supported in this browser''
      then unsupported_message
      else if err_message err \<noteq> [] \<and> str_includes (err_message err) ''HTTPS''
      then https_message
      else ''Please check your camera connection and try again. Error: '' @
           (if err_message err \<noteq> [] then err_message err else err_name err))"

definition startCamera_catch :: "js_error \<Rightarrow> kyc \<Rightarrow> kyc" where
  "startCamera_catch err s =
     (let errorMessage = camera_error_message err
      in s\<lparr>cameraError := Some errorMessage,
           errors := js_set ''selfie'' (Some errorMessage) (errors s),
           showCamera := False\<rparr>)"

text \<open>
  The part of \<open>startCamera\<close> that runs at the call, up to the first \<open>await\<close>. An error
  thrown by the platform checks reaches the \<open>catch\<close> block in the same run.
\<close>

definition startCamera :: "navigator \<Rightarrow> kyc \<Rightarrow> kyc \<times> task list" where
  "startCamera nav s =
     (let s1 = s\<lparr>cameraError := None, showCamera := True\<rparr>
      in case platform_check nav of
           Some err \<Rightarrow> (startCamera_catch err s1, [])
         | None \<Rightarrow> (s1, [Acquisition]))"

definition stop_tracks :: "media_stream \<Rightarrow> kyc \<Rightarrow> kyc" where
  "stop_tracks st s = s\<lparr>ended := insert st (ended s)\<rparr>"

text \<open>
  The rest of \<open>startCamera\<close>, once the awaited calls have settled; it runs on the state
  of that moment. The loop touches local variables only, so the whole of it is in this
  part. Were the list of constraints empty, \<open>throw lastError\<close> would throw null and the
  \<open>catch\<close> block would fail on \<open>err.name\<close> before any update: the state stays.
\<close>

definition startCamera_resume :: "(constraints \<Rightarrow> js_error + media_stream) \<Rightarrow> kyc \<Rightarrow> kyc" where
  "startCamera_resume gum s =
     (case try_constraints gum constraintsOptions None [] of
        (Some mediaStream, _, _) \<Rightarrow>
          (let s1 = s\<lparr>stream := Some mediaStream\<rparr>
           in case videoRef s1 of
                None \<Rightarrow> s1
              | Some v \<Rightarrow>
                  (let s2 = (case srcObject v of None \<Rightarrow> s1 | Some oldStream \<Rightarrow> stop_tracks oldStream s1)
                   in s2\<lparr>videoRef := Some (v\<lparr>srcObject := Some mediaStream\<rparr>)\<rparr>))
      | (None, Some lastError, _) \<Rightarrow> startCamera_catch lastError s
      | (None, None, _) \<Rightarrow> s)"

text \<open>The two handlers put on the video element (lines 207-219).\<close>

definition video_failed :: "kyc \<Rightarrow> kyc" where
  "video_failed s =
     s\<lparr>cameraError := Some ''Error starting camera. Please try again or use a different browser.''\<rparr>"

subsection \<open>\<open>stopCamera\<close> (lines 248-257)\<close>

text \<open>
  \<open>stopCamera\<close> reads \<open>stream\<close> from the closure of the render that created it. A
  click handler is the one of the current render, so its closure holds the current
  state; the encoder callback holds an older one.
\<close>

definition stopCamera_closure :: "media_stream option \<Rightarrow> kyc \<Rightarrow> kyc" where
  "stopCamera_closure closure_stream s =
     (let s1 = (case closure_stream of
                  None \<Rightarrow> s
                | Some st \<Rightarrow> (stop_tracks st s)\<lparr>stream := None\<rparr>)
      in s1\<lparr>showCamera := False, cameraError := None\<rparr>)"

definition stopCamera :: "kyc \<Rightarrow> kyc" where
  "stopCamera s = stopCamera_closure (stream s) s"

subsection \<open>\<open>capturePhoto\<close> (lines 259-307)\<close>

text \<open>
  What the browser answers during a capture: the dimensions of the frames the bound
  stream delivers, whether the canvas gives a 2d context, and the error thrown while
  drawing or encoding, if any. A video element with no stream bound reports 0 by 0.
\<close>

record capture_env =
  frame_width :: nat
  frame_height :: nat
  has_context2d :: bool
  draw_error :: "js_error option"

definition videoWidth :: "video_element \<Rightarrow> capture_env \<Rightarrow> nat" where
  "videoWidth v env = (if srcObject v = None then 0 else frame_width env)"

definition videoHeight :: "video_element \<Rightarrow> capture_env \<Rightarrow> nat" where
  "videoHeight v env = (if srcObject v = None then 0 else frame_height env)"

definition elements_not_ready :: string where
  "elements_not_ready = ''Camera elements not ready. Please try again.''"

definition stream_not_ready :: string where
  "stream_not_ready = ''Camera stream not ready. Please wait a moment and try again.''"

definition capture_catch :: "js_error \<Rightarrow> kyc \<Rightarrow> kyc" where
  "capture_catch err s =
     s\<lparr>cameraError := Some (''Error capturing photo: '' @
          (if err_message err \<noteq> [] then err_message err else ''Unknown error''))\<rparr>"

definition capturePhoto :: "capture_env \<Rightarrow> kyc \<Rightarrow> kyc \<times> task list" where
  "capturePhoto env s =
     (case (videoRef s, canvasRef s) of
        (Some v, Some canvas) \<Rightarrow>
          if videoWidth v env = 0 \<or> videoHeight v env = 0
          then (s\<lparr>cameraError := Some stream_not_ready\<rparr>, [])
          else
            (let s1 = s\<lparr>canvasRef := Some \<lparr> canvas_width = videoWidth v env,
                                             canvas_height = videoHeight v env \<rparr>\<rparr>
             in if \<not> has_context2d env
                then (capture_catch (Error ''Unable to get canvas context'') s1, [])
                else case draw_error env of
                       Some err \<Rightarrow> (capture_catch err s1, [])
                     | None \<Rightarrow> (s1, [Encode ''image/jpeg'' (9 / 10) (stream s)]))
      | _ \<Rightarrow> (s\<lparr>cameraError := Some elements_not_ready\<rparr>, []))"

record blob =
  blob_size :: nat
  blob_type :: string

text \<open>
  The callback given to \<open>toBlob\<close> (lines 288-300), run on the state of the moment it
  fires: the blob (null when the encoder has no data), the payload of
  \<open>canvas.toDataURL('image/jpeg')\<close>, and the \<open>stream\<close> of the closure.
\<close>

definition toBlob_callback :: "media_stream option \<Rightarrow> blob option \<Rightarrow> string \<Rightarrow> kyc \<Rightarrow> kyc" where
  "toBlob_callback closure_stream result payload s =
     (case result of
        None \<Rightarrow> s\<lparr>cameraError := Some ''Failed to capture image. Please try again.''\<rparr>
      | Some b \<Rightarrow>
          (let file = \<lparr> file_name = ''selfie.jpg'', file_size = blob_size b,
                        file_type = ''image/jpeg'' \<rparr>;
               s1 = s\<lparr>selfieFile := Some file,
                      selfiePreview := Some (data_url (''image/jpeg'' @ payload))\<rparr>;
               s2 = stopCamera_closure closure_stream s1
           in s2\<lparr>errors := js_set ''selfie'' None (errors s2)\<rparr>))"

text \<open>The removal button of the selfie (lines 688-692).\<close>

definition removeSelfie :: "navigator \<Rightarrow> kyc \<Rightarrow> kyc \<times> task list" where
  "removeSelfie nav s = startCamera nav (s\<lparr>selfieFile := None, selfiePreview := None\<rparr>)"

section \<open>Navigation, submission and reset (lines 309-352)\<close>

definition handleSubmit :: "kyc \<Rightarrow> kyc \<times> task list" where
  "handleSubmit s = (s\<lparr>isSubmitting := True\<rparr>, [SubmitTimer])"

definition submit_timer :: "kyc \<Rightarrow> kyc" where
  "submit_timer s = s\<lparr>isSubmitting := False, submitSuccess := True\<rparr>"

definition handleNext :: "kyc \<Rightarrow> kyc \<times> task list" where
  "handleNext s =
     (if currentStep s = 1 then
        (let (ok, s1) = validateStep1 s
         in if ok then
              (let s2 = s1\<lparr>currentStep := 2\<rparr>
               in if \<not> showCamera s \<and> selfieFile s = None then (s2, [AutoStartTimer]) else (s2, []))
            else (s1, []))
      else if currentStep s = 2 then
        (let (ok, s1) = validateStep2 s
         in if ok then handleSubmit s1 else (s1, []))
      else (s, []))"

text \<open>The button \<open>Previous\<close> (line 744).\<close>

definition previousStep :: "kyc \<Rightarrow> kyc" where
  "previousStep s = s\<lparr>currentStep := currentStep s - 1\<rparr>"

definition resetForm :: "kyc \<Rightarrow> kyc" where
  "resetForm s =
     (let s1 = s\<lparr>currentStep := 1,
                 formData := \<lparr> documentType = ''passport'', country = '''' \<rparr>,
                 documentFrontFile := None, documentBackFile := None, selfieFile := None,
                 documentFrontPreview := None, documentBackPreview := None, selfiePreview := None,
                 errors := [], submitSuccess := False, cameraError := None\<rparr>;
          s2 = (case stream s of
                  None \<Rightarrow> s1
                | Some st \<Rightarrow> (stop_tracks st s1)\<lparr>stream := None\<rparr>)
      in s2\<lparr>showCamera := False\<rparr>)"

section \<open>The page as a transition system\<close>

text \<open>
  After each run of a handler or callback React renders the component again. Two parts
  of that matter to the camera code. The effect of lines 43-53 has \<open>stream\<close> as its
  dependency: when the value has changed, the clean-up of the former render stops the
  tracks of the former stream. The video and canvas elements exist exactly while the
  camera panel is rendered (lines 354, 597, 625-657), and React sets the two references to
  the elements, or to null once they are gone; an element that is rendered anew is a new
  one, with no stream bound and the default canvas size.
\<close>

definition camera_panel :: "kyc \<Rightarrow> bool" where
  "camera_panel s = (\<not> submitSuccess s \<and> currentStep s = 2 \<and> showCamera s)"

definition effect_cleanup :: "kyc \<Rightarrow> kyc \<Rightarrow> kyc" where
  "effect_cleanup old new =
     (if stream old \<noteq> stream new
      then (case stream old of None \<Rightarrow> new | Some st \<Rightarrow> stop_tracks st new)
      else new)"

definition set_refs :: "kyc \<Rightarrow> kyc" where
  "set_refs s =
     (if camera_panel s
      then s\<lparr>videoRef := (case videoRef s of None \<Rightarrow> Some \<lparr> srcObject = None \<rparr> | Some v \<Rightarrow> Some v),
             canvasRef := (case canvasRef s of
                             None \<Rightarrow> Some \<lparr> canvas_width = 300, canvas_height = 150 \<rparr>
                           | Some c \<Rightarrow> Some c)\<rparr>
      else s\<lparr>videoRef := None, canvasRef := None\<rparr>)"

definition commit :: "kyc \<Rightarrow> kyc \<Rightarrow> kyc" where
  "commit old new = set_refs (effect_cleanup old new)"

text \<open>
  What can happen to the page: the user's actions on the controls that are rendered, and
  the browser's callbacks. Each event carries what the environment decides at that
  moment.
\<close>

datatype event =
    InputChanged string string
  | FilePicked upload_type "js_file option"
  | DocumentRemoved upload_type
  | ReaderLoadEnd upload_type js_file "string option"
  | StartClicked navigator
  | SelfieRemoved navigator
  | CaptureClicked capture_env
  | CancelClicked
  | PreviousClicked
  | NextClicked
  | ResetClicked
  | AutoStartFired navigator
  | AcquisitionSettled "constraints \<Rightarrow> js_error + media_stream"
  | BlobReady "media_stream option" "blob option" string
  | SubmitTimerFired
  | VideoPlayRejected
  | VideoErrored

record world =
  page :: kyc
  pending :: "task list"

definition initial_world :: world where
  "initial_world = \<lparr> page = initial, pending = [] \<rparr>"

definition two_sided :: "kyc \<Rightarrow> bool" where
  "two_sided s = (documentType (formData s) \<in> set [''id_card'', ''drivers_license''])"

definition preview_of :: "upload_type \<Rightarrow> kyc \<Rightarrow> string option" where
  "preview_of t s = (case t of Front \<Rightarrow> documentFrontPreview s | Back \<Rightarrow> documentBackPreview s)"

definition upload_rendered :: "upload_type \<Rightarrow> kyc \<Rightarrow> bool" where
  "upload_rendered t s =
     (\<not> submitSuccess s \<and> currentStep s = 1 \<and>
      (case t of Front \<Rightarrow> True | Back \<Rightarrow> two_sided s))"

text \<open>
  Which events the rendered page and the pending callbacks allow. A control takes an
  event only while it is rendered and not disabled (the capture button is disabled while
  \<open>stream\<close> is null, the Next button while submitting); a callback fires only while
  it is pending; the video element's handlers exist once \<open>startCamera\<close> has bound a stream.
\<close>

fun enabled :: "event \<Rightarrow> world \<Rightarrow> bool" where
  "enabled (InputChanged name v) w =
     (\<not> submitSuccess (page w) \<and> currentStep (page w) = 1 \<and>
      (name = ''country'' \<or>
       (name = ''documentType'' \<and> v \<in> set [''passport'', ''id_card'', ''drivers_license''])))"
| "enabled (FilePicked t picked) w =
     (upload_rendered t (page w) \<and> \<not> truthy (preview_of t (page w)))"
| "enabled (DocumentRemoved t) w =
     (upload_rendered t (page w) \<and> truthy (preview_of t (page w)))"
| "enabled (ReaderLoadEnd t file result) w = (ReadFile t file \<in> set (pending w))"
| "enabled (StartClicked nav) w =
     (\<not> submitSuccess (page w) \<and> currentStep (page w) = 2 \<and> \<not> showCamera (page w) \<and>
      \<not> truthy (selfiePreview (page w)))"
| "enabled (SelfieRemoved nav) w =
     (\<not> submitSuccess (page w) \<and> currentStep (page w) = 2 \<and> \<not> showCamera (page w) \<and>
      truthy (selfiePreview (page w)))"
| "enabled (CaptureClicked env) w = (camera_panel (page w) \<and> stream (page w) \<noteq> None)"
| "enabled CancelClicked w = camera_panel (page w)"
| "enabled PreviousClicked w = (\<not> submitSuccess (page w) \<and> currentStep (page w) > 1)"
| "enabled NextClicked w = (\<not> submitSuccess (page w) \<and> \<not> isSubmitting (page w))"
| "enabled ResetClicked w = submitSuccess (page w)"
| "enabled (AutoStartFired nav) w = (AutoStartTimer \<in> set (pending w))"
| "enabled (AcquisitionSettled gum) w = (Acquisition \<in> set (pending w))"
| "enabled (BlobReady closure_stream result payload) w =
     (Encode ''image/jpeg'' (9 / 10) closure_stream \<in> set (pending w))"
| "enabled SubmitTimerFired w = (SubmitTimer \<in> set (pending w))"
| "enabled VideoPlayRejected w =
     (case videoRef (page w) of None \<Rightarrow> False | Some v \<Rightarrow> srcObject v \<noteq> None)"
| "enabled VideoErrored w =
     (case videoRef (page w) of None \<Rightarrow> False | Some v \<Rightarrow> srcObject v \<noteq> None)"

text \<open>The handler of an event: the new state, the callbacks registered, the callback used up.\<close>

fun handle :: "event \<Rightarrow> kyc \<Rightarrow> (kyc \<times> task list) \<times> task list" where
  "handle (InputChanged name v) s = ((handleInputChange name v s, []), [])"
| "handle (FilePicked t picked) s = (handleFileUpload picked t s, [])"
| "handle (DocumentRemoved t) s = ((removeDocument t s, []), [])"
| "handle (ReaderLoadEnd t file result) s = ((reader_onloadend t file result s, []), [ReadFile t file])"
| "handle (StartClicked nav) s = (startCamera nav s, [])"
| "handle (SelfieRemoved nav) s = (removeSelfie nav s, [])"
| "handle (CaptureClicked env) s = (capturePhoto env s, [])"
| "handle CancelClicked s = ((stopCamera s, []), [])"
| "handle PreviousClicked s = ((previousStep s, []), [])"
| "handle NextClicked s = (handleNext s, [])"
| "handle ResetClicked s = ((resetForm s, []), [])"
| "handle (AutoStartFired nav) s = (startCamera nav s, [AutoStartTimer])"
| "handle (AcquisitionSettled gum) s = ((startCamera_resume gum s, []), [Acquisition])"
| "handle (BlobReady closure_stream result payload) s =
     ((toBlob_callback closure_stream result payload s, []),
      [Encode ''image/jpeg'' (9 / 10) closure_stream])"
| "handle SubmitTimerFired s = ((submit_timer s, []), [SubmitTimer])"
| "handle VideoPlayRejected s = ((video_failed s, []), [])"
| "handle VideoErrored s = ((video_failed s, []), [])"

definition step :: "event \<Rightarrow> world \<Rightarrow> world" where
  "step e w =
     (case handle e (page w) of
        ((s', registered), used) \<Rightarrow>
          \<lparr> page = commit (page w) s',
            pending = foldr remove1 used (pending w) @ registered \<rparr>)"

text \<open>A run of events from a world: None as soon as an event is not allowed.\<close>

fun run :: "event list \<Rightarrow> world \<Rightarrow> world option" where
  "run [] w = Some w"
| "run (e # es) w = (if enabled e w then run es (step e w) else None)"

inductive reachable :: "world \<Rightarrow> bool" where
  reachable_initial: "reachable initial_world"
| reachable_step: "reachable w \<Longrightarrow> enabled e w \<Longrightarrow> reachable (step e w)"

section \<open>Predicates on states\<close>

definition file_of :: "upload_type \<Rightarrow> kyc \<Rightarrow> js_file option" where
  "file_of t s = (case t of Front \<Rightarrow> documentFrontFile s | Back \<Rightarrow> documentBackFile s)"

text \<open>A stream bound to the video element is the stream the state holds.\<close>

definition stream_bound :: "kyc \<Rightarrow> bool" where
  "stream_bound s =
     (\<forall>v m. videoRef s = Some v \<longrightarrow> srcObject v = Some m \<longrightarrow> stream s = Some m)"

text \<open>The two references are set exactly while the camera panel is rendered.\<close>

definition refs_consistent :: "kyc \<Rightarrow> bool" where
  "refs_consistent s =
     ((videoRef s \<noteq> None) = camera_panel s \<and> (canvasRef s \<noteq> None) = camera_panel s \<and>
      stream_bound s)"

text \<open>The camera panel and a selfie preview are not there together.\<close>

definition exclusive :: "kyc \<Rightarrow> bool" where
  "exclusive s = (\<not> (showCamera s \<and> truthy (selfiePreview s)))"

section \<open>Concrete inputs\<close>

definition example_document :: js_file where
  "example_document =
     \<lparr> file_name = ''passport.png'', file_size = 1000, file_type = ''image/png'' \<rparr>"

definition example_large_document :: js_file where
  "example_large_document =
     \<lparr> file_name = ''scan.png'', file_size = 5242881, file_type = ''image/png'' \<rparr>"

definition example_navigator :: navigator where
  "example_navigator =
     \<lparr> has_mediaDevices = True, has_legacy_getUserMedia = False, has_getUserMedia = True,
       userAgent = ''Mozilla/5.0 (X11; Linux x86_64)'', protocol = ''https:'',
       hostname = ''kyc.example'' \<rparr>"

definition example_capture_env :: capture_env where
  "example_capture_env =
     \<lparr> frame_width = 640, frame_height = 480, has_context2d = True, draw_error = None \<rparr>"

definition example_blob :: blob where
  "example_blob = \<lparr> blob_size = 2000, blob_type = ''image/jpeg'' \<rparr>"

definition example_busy :: js_error where
  "example_busy = \<lparr> err_name = ''NotReadableError'', err_message = ''Could not start video source'' \<rparr>"

definition example_overconstrained :: js_error where
  "example_overconstrained = \<lparr> err_name = ''OverconstrainedError'', err_message = '''' \<rparr>"

text \<open>A camera that only grants the bare request \<open>video: true\<close>, and one that grants none.\<close>

definition gum_bare_only :: "constraints \<Rightarrow> js_error + media_stream" where
  "gum_bare_only c = (if video c = VideoTrue then Inr 7 else Inl example_overconstrained)"

definition gum_busy :: "constraints \<Rightarrow> js_error + media_stream" where
  "gum_busy c = (if video c = VideoTrue then Inl example_busy else Inl example_overconstrained)"

text \<open>
  The user fills in step 1, goes on to step 2, the delayed start of the camera fires and
  the camera is granted: the page is streaming.
\<close>

definition to_streaming :: "event list" where
  "to_streaming =
     [ InputChanged ''country'' ''MY'',
       FilePicked Front (Some example_document),
       ReaderLoadEnd Front example_document (Some ''image/png;base64,AAAA''),
       NextClicked,
       AutoStartFired example_navigator,
       AcquisitionSettled (\<lambda>c. Inr 1) ]"

definition streaming_world :: world where
  "streaming_world =
     \<lparr> page =
         \<lparr> currentStep = 2,
           formData = \<lparr> documentType = ''passport'', country = ''MY'' \<rparr>,
           documentFrontFile = Some example_document,
           documentBackFile = None, selfieFile = None,
           documentFrontPreview = Some ''data:image/png;base64,AAAA'',
           documentBackPreview = None, selfiePreview = None, errors = [],
           isSubmitting = False, submitSuccess = False, showCamera = True,
           stream = Some 1, cameraError = None,
           videoRef = Some \<lparr> srcObject = Some 1 \<rparr>,
           canvasRef = Some \<lparr> canvas_width = 300, canvas_height = 150 \<rparr>,
           ended = {} \<rparr>,
       pending = [] \<rparr>"

text \<open>
  The run in which the delayed start of the camera is overtaken: after Next, the user
  starts the camera by the button and takes the selfie before the timer of
  \<open>handleNext\<close> fires.
\<close>

definition overtaken_timer :: "event list" where
  "overtaken_timer =
     [ InputChanged ''country'' ''MY'',
       FilePicked Front (Some example_document),
       ReaderLoadEnd Front example_document (Some ''image/png;base64,AAAA''),
       NextClicked,
       StartClicked example_navigator,
       AcquisitionSettled (\<lambda>c. Inr 1),
       CaptureClicked example_capture_env,
       BlobReady (Some 1) (Some example_blob) '';base64,BBBB'',
       AutoStartFired example_navigator ]"

text \<open>
  A second run to the same end: the encoder is still at work when the user cancels,
  goes back and comes forward again; its callback arrives before the new timer fires.
\<close>

definition overtaken_encoder :: "event list" where
  "overtaken_encoder =
     to_streaming @
     [ CaptureClicked example_capture_env,
       CancelClicked,
       PreviousClicked,
       NextClicked,
       BlobReady (Some 1) (Some example_blob) '';base64,BBBB'',
       AutoStartFired example_navigator ]"

section \<open>Theorems\<close>

subsection \<open>Validator\<close>

text \<open>
  C1. For every form state, \<open>validateStep1\<close> returns true iff the country is non-empty and a
  front document file is present and (the document type is neither \<open>id_card\<close> nor
  \<open>drivers_license\<close>, or a back document file is present); and \<open>validateStep2\<close> returns
  true iff a selfie file is present.
\<close>

theorem validateStep_iff:
  "fst (validateStep1 s) =
     (country (formData s) \<noteq> [] \<and> documentFrontFile s \<noteq> None \<and>
      (documentType (formData s) \<notin> {''id_card'', ''drivers_license''} \<or> documentBackFile s \<noteq> None))
   \<and> fst (validateStep2 s) = (selfieFile s \<noteq> None)"
  by (auto simp: validateStep1_def validateStep2_def js_set_def object_keys_def Let_def)

theorem validateStep_iff_witness:
  "fst (validateStep1 (initial\<lparr>formData := \<lparr> documentType = ''id_card'', country = ''MY'' \<rparr>,
         documentFrontFile := Some example_document, documentBackFile := Some example_document\<rparr>))
   \<and> \<not> fst (validateStep2 initial)"
  using validateStep_iff [of "initial\<lparr>formData := \<lparr> documentType = ''id_card'', country = ''MY'' \<rparr>,
         documentFrontFile := Some example_document, documentBackFile := Some example_document\<rparr>"]
    validateStep_iff [of initial]
  by (simp add: initial_def)

subsection \<open>Facts about the helpers\<close>

lemma error_key_simps:
  "error_key Front = ''documentFront''" "error_key Back = ''documentBack''"
  by code_simp+

lemma js_get_set_same: "js_get (js_set k v obj) k = v"
  by (simp add: js_get_def js_set_def update_conv')

lemma js_get_set_other: "k' \<noteq> k \<Longrightarrow> js_get (js_set k v obj) k' = js_get obj k'"
  by (simp add: js_get_def js_set_def update_conv')

lemma truthy_data_url: "truthy (Some (data_url rest))"
  by (simp add: truthy_def data_url_def)

lemma example_navigator_not_android: "\<not> isAndroid (userAgent example_navigator)"
  by code_simp


subsection \<open>File Intake\<close>

text \<open>
  C2. For a file of more than 5 MiB (5 * 1024 * 1024 bytes), \<open>handleFileUpload\<close> leaves the
  stored file and the preview of the slot as they are and sets the size error under the
  key of the slot. No decoding is started and nothing but the errors changes.
\<close>

theorem handleFileUpload_rejects_large:
  "5 * 1024 * 1024 < file_size file \<Longrightarrow>
   (case handleFileUpload (Some file) t s of
      (s', registered) \<Rightarrow>
        file_of t s' = file_of t s \<and> preview_of t s' = preview_of t s \<and> registered = [] \<and>
        js_get (errors s') (case t of Front \<Rightarrow> ''documentFront'' | Back \<Rightarrow> ''documentBack'')
          = Some ''File size must be less than 5MB'' \<and>
        s' = s\<lparr>errors := errors s'\<rparr>)"
  by (cases t)
     (simp_all add: handleFileUpload_def file_of_def preview_of_def error_key_simps js_get_set_same)

theorem handleFileUpload_rejects_large_witness:
  "5 * 1024 * 1024 < file_size example_large_document \<and>
   handleFileUpload (Some example_large_document) Front initial =
     (initial\<lparr>errors := [(''documentFront'', Some ''File size must be less than 5MB'')]\<rparr>, [])"
proof -
  have big: "5 * 1024 * 1024 < file_size example_large_document"
    by (simp add: example_large_document_def)
  have "errors initial = []" by (simp add: initial_def)
  moreover have "js_set ''documentFront'' v [] = [(''documentFront'', v)]" for v
    by (simp add: js_set_def)
  ultimately show ?thesis
    using big handleFileUpload_rejects_large [OF big, of Front initial]
    by (simp add: handleFileUpload_def error_key_simps)
qed

text \<open>
  What the reader's callback does for a file of at most 5 MiB, on whatever state \<open>s1\<close> the
  page has when it fires: the slot's stored file is the input file, the slot's preview is
  the reader's result, and the error of the slot reads undefined.
\<close>

lemma reader_onloadend_stores:
  "file_size file \<le> 5 * 1024 * 1024 \<Longrightarrow>
   handleFileUpload (Some file) t s = (s, [ReadFile t file]) \<and>
   (let s' = reader_onloadend t file result s1
    in file_of t s' = Some file \<and>
       preview_of t s' = map_option data_url result \<and>
       (result \<noteq> None \<longrightarrow> truthy (preview_of t s')) \<and>
       js_get (errors s') (case t of Front \<Rightarrow> ''documentFront'' | Back \<Rightarrow> ''documentBack'') = None)"
  by (cases t; cases result)
     (simp_all add: handleFileUpload_def reader_onloadend_def file_of_def preview_of_def
        js_get_set_same truthy_data_url)

text \<open>
  C3. The claim is that for every file of at most 5 MiB, once \<open>handleFileUpload\<close> and its
  decoding are over, the slot holds the file and a preview and its error is cleared. The
  callback is \<open>onloadend\<close>, which the reader also calls after a read that failed, with
  \<open>reader.result\<close> null; the callback does not look at the result before it stores the file
  (the encoder's callback of \<open>capturePhoto\<close> does: it returns on a null blob). In the run
  below a document of 1000 bytes is picked and its read fails: no callback is left
  pending, the file is stored, and the slot has no preview.
\<close>

theorem failed_read_stores_file_without_preview:
  "file_size example_document \<le> 5 * 1024 * 1024 \<and>
   (case run [FilePicked Front (Some example_document),
              ReaderLoadEnd Front example_document None] initial_world of
      None \<Rightarrow> False
    | Some w \<Rightarrow> pending w = [] \<and>
                documentFrontFile (page w) = Some example_document \<and>
                documentFrontPreview (page w) = None \<and>
                \<not> truthy (preview_of Front (page w)))"
  by (simp add: initial_world_def initial_def step_def commit_def set_refs_def effect_cleanup_def
      camera_panel_def handleFileUpload_def reader_onloadend_def example_document_def
      upload_rendered_def preview_of_def truthy_def)

subsection \<open>Form State Holder\<close>

text \<open>
  C10. \<open>handleInputChange\<close> on a field whose recorded error is a message (a non-empty
  string, as every message the program writes is) clears that error; the errors of every
  other key, the three files and the three previews stay as they are.
\<close>

theorem handleInputChange_clears_own_error:
  "(truthy (js_get (errors s) name) \<longrightarrow> js_get (errors (handleInputChange name v s)) name = None) \<and>
   (\<forall>k. k \<noteq> name \<longrightarrow> js_get (errors (handleInputChange name v s)) k = js_get (errors s) k) \<and>
   documentFrontFile (handleInputChange name v s) = documentFrontFile s \<and>
   documentBackFile (handleInputChange name v s) = documentBackFile s \<and>
   selfieFile (handleInputChange name v s) = selfieFile s \<and>
   documentFrontPreview (handleInputChange name v s) = documentFrontPreview s \<and>
   documentBackPreview (handleInputChange name v s) = documentBackPreview s \<and>
   selfiePreview (handleInputChange name v s) = selfiePreview s"
  by (simp add: handleInputChange_def Let_def js_get_set_same js_get_set_other)

theorem handleInputChange_clears_own_error_witness:
  "truthy (js_get [(''country'', Some ''Country is required''),
                   (''documentFront'', Some ''Please upload the front of your document'')] ''country'') \<and>
   js_get (errors (handleInputChange ''country'' ''M''
       (initial\<lparr>errors := [(''country'', Some ''Country is required''),
                   (''documentFront'', Some ''Please upload the front of your document'')]\<rparr>))) ''country'' = None \<and>
   js_get (errors (handleInputChange ''country'' ''M''
       (initial\<lparr>errors := [(''country'', Some ''Country is required''),
                   (''documentFront'', Some ''Please upload the front of your document'')]\<rparr>))) ''documentFront''
     = Some ''Please upload the front of your document''"
proof -
  let ?e = "[(''country'', Some ''Country is required''),
             (''documentFront'', Some ''Please upload the front of your document'')]"
  have t: "truthy (js_get ?e ''country'')" by (simp add: truthy_def js_get_def)
  have o: "js_get ?e ''documentFront'' = Some ''Please upload the front of your document''"
    by (simp add: js_get_def)
  show ?thesis
    using t o handleInputChange_clears_own_error [of "initial\<lparr>errors := ?e\<rparr>" "''country''" "''M''"]
    by simp
qed

subsection \<open>What holds in every reachable state\<close>

lemma commit_consistent:
  "stream_bound s' \<or> \<not> camera_panel s' \<Longrightarrow> refs_consistent (commit s s')"
  by (auto simp: refs_consistent_def stream_bound_def commit_def set_refs_def effect_cleanup_def
      camera_panel_def stop_tracks_def split: option.splits)

lemma startCamera_catch_panel: "\<not> camera_panel (startCamera_catch err s)"
  by (simp add: startCamera_catch_def camera_panel_def Let_def)

lemma startCamera_bound: "stream_bound s \<Longrightarrow> stream_bound (fst (startCamera nav s))"
  by (auto simp: startCamera_def startCamera_catch_def stream_bound_def Let_def split: option.splits)

lemma handle_bound:
  assumes b: "stream_bound s"
  shows "stream_bound (fst (fst (handle e s))) \<or> \<not> camera_panel (fst (fst (handle e s)))"
proof (cases e)
  case (InputChanged name v)
  then show ?thesis using b by (auto simp: handleInputChange_def stream_bound_def Let_def)
next
  case (FilePicked t picked)
  then show ?thesis using b by (auto simp: handleFileUpload_def stream_bound_def split: option.splits)
next
  case (DocumentRemoved t)
  then show ?thesis using b by (cases t) (auto simp: removeDocument_def stream_bound_def)
next
  case (ReaderLoadEnd t f result)
  then show ?thesis using b by (cases t) (auto simp: reader_onloadend_def stream_bound_def)
next
  case (StartClicked nav)
  then show ?thesis using startCamera_bound [OF b] by simp
next
  case (SelfieRemoved nav)
  have "stream_bound (s\<lparr>selfieFile := None, selfiePreview := None\<rparr>)"
    using b by (simp add: stream_bound_def)
  then show ?thesis using SelfieRemoved startCamera_bound by (simp add: removeSelfie_def)
next
  case (CaptureClicked env)
  then show ?thesis using b
    by (auto simp: capturePhoto_def capture_catch_def stream_bound_def Let_def split: option.splits)
next
  case CancelClicked
  then show ?thesis
    by (simp add: stopCamera_def stopCamera_closure_def camera_panel_def Let_def split: option.splits)
next
  case PreviousClicked
  then show ?thesis using b by (auto simp: previousStep_def stream_bound_def)
next
  case NextClicked
  then show ?thesis using b
    by (auto simp: handleNext_def validateStep1_def validateStep2_def handleSubmit_def
        stream_bound_def Let_def split: option.splits)
next
  case ResetClicked
  then show ?thesis by (simp add: resetForm_def camera_panel_def Let_def split: option.splits)
next
  case (AutoStartFired nav)
  then show ?thesis using startCamera_bound [OF b] by simp
next
  case (AcquisitionSettled gum)
  then show ?thesis using b
    by (auto simp: startCamera_resume_def startCamera_catch_panel stream_bound_def stop_tracks_def
        Let_def split: option.splits prod.splits)
next
  case (BlobReady cs result payload)
  then show ?thesis using b
    by (auto simp: toBlob_callback_def stopCamera_closure_def camera_panel_def stream_bound_def
        Let_def split: option.splits)
next
  case SubmitTimerFired
  then show ?thesis using b by (auto simp: submit_timer_def stream_bound_def)
next
  case VideoPlayRejected
  then show ?thesis using b by (auto simp: video_failed_def stream_bound_def)
next
  case VideoErrored
  then show ?thesis using b by (auto simp: video_failed_def stream_bound_def)
qed

lemma step_consistent:
  assumes "refs_consistent (page w)"
  shows "refs_consistent (page (step e w))"
proof -
  obtain s' reg used where h: "handle e (page w) = ((s', reg), used)"
    by (metis prod.collapse)
  from assms have "stream_bound (page w)" by (simp add: refs_consistent_def)
  from handle_bound [OF this, of e] h have "stream_bound s' \<or> \<not> camera_panel s'" by simp
  then show ?thesis using h by (simp add: step_def commit_consistent)
qed

lemma reachable_consistent: "reachable w \<Longrightarrow> refs_consistent (page w)"
proof (induction rule: reachable.induct)
  case reachable_initial
  show ?case
    by (simp add: initial_world_def initial_def refs_consistent_def stream_bound_def camera_panel_def)
next
  case (reachable_step w e)
  then show ?case by (simp add: step_consistent)
qed

lemma run_reachable: "reachable w \<Longrightarrow> run es w = Some w' \<Longrightarrow> reachable w'"
proof (induction es arbitrary: w)
  case Nil
  then show ?case by simp
next
  case (Cons e es)
  from Cons.prems(2) have en: "enabled e w" and r: "run es (step e w) = Some w'"
    by (auto split: if_splits)
  from Cons.prems(1) en have "reachable (step e w)" by (rule reachable_step)
  then show ?case using r by (rule Cons.IH)
qed

lemmas run_defs = initial_world_def initial_def step_def commit_def set_refs_def
  effect_cleanup_def camera_panel_def handleInputChange_def setField_def truthy_def js_get_def
  handleFileUpload_def example_document_def reader_onloadend_def handleNext_def validateStep1_def
  js_set_def object_keys_def startCamera_def platform_check_def example_navigator_def
  startCamera_resume_def constraintsOptions_def capturePhoto_def example_capture_env_def
  videoWidth_def videoHeight_def toBlob_callback_def stopCamera_closure_def example_blob_def
  stop_tracks_def data_url_def upload_rendered_def preview_of_def Let_def

lemma to_streaming_run: "run to_streaming initial_world = Some streaming_world"
  using example_navigator_not_android
  by (simp add: to_streaming_def streaming_world_def run_defs)

lemma streaming_reachable: "reachable streaming_world"
  using reachable_initial to_streaming_run by (rule run_reachable)

subsection \<open>\<open>capturePhoto\<close>\<close>



text \<open>
  C4. A capture that succeeds is one that gets as far as the encoder, in a reachable state,
  and whose encoder delivers a blob. The encoder is asked for \<open>image/jpeg\<close> at quality
  0.9. When the callback has run and the page is rendered again, whatever the state \<open>s2\<close>
  it ran on: the selfie file is named \<open>selfie.jpg\<close> with type \<open>image/jpeg\<close>, the selfie
  preview is a non-empty string, the state holds no stream, the camera panel is closed and
  its elements are gone, the camera error is cleared, and the stream of the capture as
  well as the stream held when the callback ran have been stopped.
\<close>

theorem capturePhoto_success:
  assumes "reachable w"
    and "capturePhoto env (page w) = (s1, registered)"
    and "registered \<noteq> []"
  shows "registered = [Encode ''image/jpeg'' (9 / 10) (stream (page w))] \<and>
         stream (page w) \<noteq> None \<and>
         (let s' = commit s2 (toBlob_callback (stream (page w)) (Some b) payload s2)
          in selfieFile s' =
               Some \<lparr> file_name = ''selfie.jpg'', file_size = blob_size b, file_type = ''image/jpeg'' \<rparr> \<and>
             truthy (selfiePreview s') \<and>
             stream s' = None \<and> \<not> showCamera s' \<and> cameraError s' = None \<and>
             videoRef s' = None \<and> canvasRef s' = None \<and>
             (\<forall>m. stream (page w) = Some m \<or> stream s2 = Some m \<longrightarrow> m \<in> ended s'))"
proof -
  from assms(1) have c: "refs_consistent (page w)" by (rule reachable_consistent)
  from assms(2,3) obtain v cv where v: "videoRef (page w) = Some v"
    and cv: "canvasRef (page w) = Some cv"
    by (auto simp: capturePhoto_def split: option.splits)
  from assms(2,3) v cv have dims: "videoWidth v env \<noteq> 0"
    by (auto simp: capturePhoto_def split: if_splits)
  then have "srcObject v \<noteq> None" by (auto simp: videoWidth_def split: if_splits)
  with c v obtain m where m: "stream (page w) = Some m"
    by (auto simp: refs_consistent_def stream_bound_def)
  from assms(2,3) v cv have reg: "registered = [Encode ''image/jpeg'' (9 / 10) (stream (page w))]"
    by (auto simp: capturePhoto_def Let_def split: if_splits option.splits)
  have cb: "let s' = commit s2 (toBlob_callback (Some m) (Some b) payload s2)
          in selfieFile s' =
               Some \<lparr> file_name = ''selfie.jpg'', file_size = blob_size b, file_type = ''image/jpeg'' \<rparr> \<and>
             truthy (selfiePreview s') \<and>
             stream s' = None \<and> \<not> showCamera s' \<and> cameraError s' = None \<and>
             videoRef s' = None \<and> canvasRef s' = None \<and>
             (\<forall>k. Some m = Some k \<or> stream s2 = Some k \<longrightarrow> k \<in> ended s')"
    by (auto simp: toBlob_callback_def stopCamera_closure_def stop_tracks_def commit_def set_refs_def
        effect_cleanup_def camera_panel_def truthy_data_url Let_def)
  show ?thesis using reg m cb by simp
qed

theorem capturePhoto_success_witness:
  "reachable streaming_world \<and>
   capturePhoto example_capture_env (page streaming_world) =
     ((page streaming_world)\<lparr>canvasRef := Some \<lparr> canvas_width = 640, canvas_height = 480 \<rparr>\<rparr>,
      [Encode ''image/jpeg'' (9 / 10) (Some 1)]) \<and>
   selfieFile (commit (page streaming_world)
       (toBlob_callback (Some 1) (Some example_blob) '';base64,BBBB'' (page streaming_world))) =
     Some \<lparr> file_name = ''selfie.jpg'', file_size = 2000, file_type = ''image/jpeg'' \<rparr> \<and>
   stream (commit (page streaming_world)
       (toBlob_callback (Some 1) (Some example_blob) '';base64,BBBB'' (page streaming_world))) = None \<and>
   \<not> showCamera (commit (page streaming_world)
       (toBlob_callback (Some 1) (Some example_blob) '';base64,BBBB'' (page streaming_world))) \<and>
   1 \<in> ended (commit (page streaming_world)
       (toBlob_callback (Some 1) (Some example_blob) '';base64,BBBB'' (page streaming_world)))"
proof -
  have cap: "capturePhoto example_capture_env (page streaming_world) =
     ((page streaming_world)\<lparr>canvasRef := Some \<lparr> canvas_width = 640, canvas_height = 480 \<rparr>\<rparr>,
      [Encode ''image/jpeg'' (9 / 10) (Some 1)])"
    by (simp add: capturePhoto_def streaming_world_def example_capture_env_def videoWidth_def
        videoHeight_def)
  have ne: "[Encode ''image/jpeg'' (9 / 10) (Some 1)] \<noteq> []" by simp
  have st: "stream (page streaming_world) = Some 1" by (simp add: streaming_world_def)
  show ?thesis
    using capturePhoto_success [OF streaming_reachable cap ne, of "page streaming_world"
        example_blob "'';base64,BBBB''"] streaming_reachable cap st
    by (simp add: Let_def example_blob_def)
qed

subsection \<open>\<open>startCamera\<close>\<close>

lemma try_constraints_first:
  "i < length cs \<Longrightarrow> gum (cs ! i) = Inr m \<Longrightarrow> (\<forall>j<i. isl (gum (cs ! j))) \<Longrightarrow>
   try_constraints gum cs le calls =
     (Some m, (if i = 0 then le else Some (projl (gum (cs ! (i - 1))))), calls @ take (Suc i) cs)"
proof (induction cs arbitrary: i le calls)
  case Nil
  then show ?case by simp
next
  case (Cons c cs)
  show ?case
  proof (cases i)
    case 0
    with Cons.prems show ?thesis by simp
  next
    case (Suc k)
    from Cons.prems Suc have "isl (gum c)" by auto
    then obtain e where e: "gum c = Inl e" by (cases "gum c") auto
    have k: "k < length cs" "gum (cs ! k) = Inr m" "\<forall>j<k. isl (gum (cs ! j))"
      using Cons.prems Suc by auto
    have "try_constraints gum cs (Some e) (calls @ [c]) =
            (Some m, (if k = 0 then Some e else Some (projl (gum (cs ! (k - 1))))),
             (calls @ [c]) @ take (Suc k) cs)"
      by (rule Cons.IH [OF k])
    then show ?thesis using e Suc by (cases k) auto
  qed
qed

lemma try_constraints_all_fail:
  "cs \<noteq> [] \<Longrightarrow> (\<forall>c\<in>set cs. isl (gum c)) \<Longrightarrow>
   try_constraints gum cs le calls = (None, Some (projl (gum (last cs))), calls @ cs)"
proof (induction cs arbitrary: le calls)
  case Nil
  then show ?case by simp
next
  case (Cons c cs)
  from Cons.prems obtain e where e: "gum c = Inl e" by (cases "gum c") auto
  show ?case
  proof (cases "cs = []")
    case True
    then show ?thesis using e by simp
  next
    case False
    then show ?thesis using Cons e by simp
  qed
qed

lemma constraintsOptions_ends:
  "hd constraintsOptions =
     \<lparr> video = VideoSpec ''user''
                 (Some \<lparr> range_min = None, range_ideal = Some 1280, range_max = None \<rparr>)
                 (Some \<lparr> range_min = None, range_ideal = Some 720, range_max = None \<rparr>),
       audio = False \<rparr>"
  "last constraintsOptions = \<lparr> video = VideoTrue, audio = False \<rparr>"
  "constraintsOptions \<noteq> []"
  "distinct constraintsOptions"
  by (simp_all add: constraintsOptions_def)

text \<open>
  C6. \<open>startCamera\<close> tries the constraint objects of \<open>constraintsOptions\<close> in order, from
  the front camera at an ideal 1280 by 720 down to the bare \<open>video: true\<close>. When the
  object at position \<open>i\<close> is the first that \<open>getUserMedia\<close> grants, its stream is the one
  stored, \<open>getUserMedia\<close> has been called with the first \<open>i + 1\<close> objects and no more, and
  no error is reported. When every object is refused, all of them have been tried and the
  error reported is built from the refusal of the last one. The four objects are distinct,
  so any four answers of the camera are a function \<open>gum\<close> of the object. The acquisition is
  what \<open>startCamera\<close> registers when the platform checks pass.
\<close>

theorem startCamera_fallback:
  "hd constraintsOptions =
     \<lparr> video = VideoSpec ''user''
                 (Some \<lparr> range_min = None, range_ideal = Some 1280, range_max = None \<rparr>)
                 (Some \<lparr> range_min = None, range_ideal = Some 720, range_max = None \<rparr>),
       audio = False \<rparr> \<and>
   last constraintsOptions = \<lparr> video = VideoTrue, audio = False \<rparr> \<and>
   distinct constraintsOptions \<and>
   (platform_check nav = None \<longrightarrow>
      startCamera nav s = (s\<lparr>cameraError := None, showCamera := True\<rparr>, [Acquisition])) \<and>
   (\<forall>i m. i < length constraintsOptions \<and> gum (constraintsOptions ! i) = Inr m \<and>
           (\<forall>j<i. isl (gum (constraintsOptions ! j))) \<longrightarrow>
      fst (try_constraints gum constraintsOptions None []) = Some m \<and>
      snd (snd (try_constraints gum constraintsOptions None [])) = take (Suc i) constraintsOptions \<and>
      stream (startCamera_resume gum s) = Some m \<and>
      cameraError (startCamera_resume gum s) = cameraError s \<and>
      showCamera (startCamera_resume gum s) = showCamera s) \<and>
   ((\<forall>c\<in>set constraintsOptions. isl (gum c)) \<longrightarrow>
      try_constraints gum constraintsOptions None [] =
        (None, Some (projl (gum (last constraintsOptions))), constraintsOptions) \<and>
      startCamera_resume gum s = startCamera_catch (projl (gum (last constraintsOptions))) s \<and>
      cameraError (startCamera_resume gum s) =
        Some (camera_error_message (projl (gum (last constraintsOptions)))))"
proof -
  have first: "fst (try_constraints gum constraintsOptions None []) = Some m \<and>
      snd (snd (try_constraints gum constraintsOptions None [])) = take (Suc i) constraintsOptions \<and>
      stream (startCamera_resume gum s) = Some m \<and>
      cameraError (startCamera_resume gum s) = cameraError s \<and>
      showCamera (startCamera_resume gum s) = showCamera s"
    if h: "i < length constraintsOptions" "gum (constraintsOptions ! i) = Inr m"
      "\<forall>j<i. isl (gum (constraintsOptions ! j))" for i m
  proof -
    from try_constraints_first [OF h, of None "[]"]
    obtain le where t: "try_constraints gum constraintsOptions None [] =
        (Some m, le, take (Suc i) constraintsOptions)"
      by auto
    then show ?thesis
      by (auto simp: startCamera_resume_def stop_tracks_def Let_def split: option.splits)
  qed
  have none: "try_constraints gum constraintsOptions None [] =
        (None, Some (projl (gum (last constraintsOptions))), constraintsOptions) \<and>
      startCamera_resume gum s = startCamera_catch (projl (gum (last constraintsOptions))) s \<and>
      cameraError (startCamera_resume gum s) =
        Some (camera_error_message (projl (gum (last constraintsOptions))))"
    if h: "\<forall>c\<in>set constraintsOptions. isl (gum c)"
  proof -
    from try_constraints_all_fail [OF constraintsOptions_ends(3) h, of None "[]"]
    have t: "try_constraints gum constraintsOptions None [] =
        (None, Some (projl (gum (last constraintsOptions))), constraintsOptions)"
      by simp
    then show ?thesis
      by (simp add: startCamera_resume_def startCamera_catch_def Let_def)
  qed
  have start: "startCamera nav s = (s\<lparr>cameraError := None, showCamera := True\<rparr>, [Acquisition])"
    if "platform_check nav = None"
    using that by (simp add: startCamera_def)
  show ?thesis using first none start constraintsOptions_ends by blast
qed

theorem startCamera_fallback_witness:
  "platform_check example_navigator = None \<and>
   snd (startCamera example_navigator initial) = [Acquisition] \<and>
   3 < length constraintsOptions \<and> gum_bare_only (constraintsOptions ! 3) = Inr 7 \<and>
   isl (gum_bare_only (constraintsOptions ! 0)) \<and> isl (gum_bare_only (constraintsOptions ! 1)) \<and>
   isl (gum_bare_only (constraintsOptions ! 2)) \<and>
   stream (startCamera_resume gum_bare_only initial) = Some 7 \<and>
   snd (snd (try_constraints gum_bare_only constraintsOptions None [])) = constraintsOptions \<and>
   list_all (\<lambda>c. isl (gum_busy c)) constraintsOptions \<and>
   cameraError (startCamera_resume gum_busy initial) =
     Some ''Unable to access camera. Camera is already in use by another application.''"
proof -
  have l: "3 < length constraintsOptions" by (simp add: constraintsOptions_def)
  have g: "gum_bare_only (constraintsOptions ! 3) = Inr 7"
    by (simp add: constraintsOptions_def gum_bare_only_def)
  have f: "isl (gum_bare_only (constraintsOptions ! 0))" "isl (gum_bare_only (constraintsOptions ! 1))"
    "isl (gum_bare_only (constraintsOptions ! 2))"
    by (simp_all add: constraintsOptions_def gum_bare_only_def)
  have fa: "\<forall>j<3. isl (gum_bare_only (constraintsOptions ! j))"
  proof (intro allI impI)
    fix j :: nat assume "j < 3"
    then have "j = 0 \<or> j = 1 \<or> j = 2" by arith
    then show "isl (gum_bare_only (constraintsOptions ! j))" using f by auto
  qed
  have b: "\<forall>c\<in>set constraintsOptions. isl (gum_busy c)"
    by (simp add: constraintsOptions_def gum_busy_def)
  have lb: "list_all (\<lambda>c. isl (gum_busy c)) constraintsOptions"
    using b by (simp add: list_all_iff)
  have t: "take (Suc 3) constraintsOptions = constraintsOptions"
    by (simp add: constraintsOptions_def)
  have e: "projl (gum_busy (last constraintsOptions)) = example_busy"
    by (simp add: constraintsOptions_def gum_busy_def)
  have msg: "camera_error_message example_busy =
      ''Unable to access camera. Camera is already in use by another application.''"
    by (simp add: camera_error_message_def example_busy_def)
  have pc: "platform_check example_navigator = None"
    using example_navigator_not_android
    by (simp add: platform_check_def example_navigator_def)
  from startCamera_fallback [of example_navigator initial gum_bare_only] pc
  have zero: "snd (startCamera example_navigator initial) = [Acquisition]"
    by simp
  from startCamera_fallback [of nav initial gum_bare_only for nav] l g fa t
  have one: "stream (startCamera_resume gum_bare_only initial) = Some 7 \<and>
      snd (snd (try_constraints gum_bare_only constraintsOptions None [])) = constraintsOptions"
    by metis
  from startCamera_fallback [of nav initial gum_busy for nav] b e msg
  have two: "cameraError (startCamera_resume gum_busy initial) =
     Some ''Unable to access camera. Camera is already in use by another application.''"
    by metis
  show ?thesis using pc zero l g f one lb two by simp
qed

subsection \<open>\<open>stopCamera\<close> and \<open>resetForm\<close>\<close>

text \<open>
  C8. \<open>stopCamera\<close> is idempotent: a second call changes nothing, whether it is the
  handler of the next render (whose closure holds the new state), the same closure called
  again, or the second of two calls each followed by a render. After one call the state
  holds no stream, the tracks of the stream it held are stopped, the camera panel is
  closed and the camera error is cleared. The function has no failing path.
\<close>

theorem stopCamera_idempotent:
  "stopCamera (stopCamera s) = stopCamera s \<and>
   stopCamera_closure c (stopCamera_closure c s) = stopCamera_closure c s \<and>
   commit (commit s (stopCamera s)) (stopCamera (commit s (stopCamera s))) = commit s (stopCamera s) \<and>
   stream (stopCamera s) = None \<and> \<not> showCamera (stopCamera s) \<and> cameraError (stopCamera s) = None \<and>
   ended (stopCamera s) = (case stream s of None \<Rightarrow> ended s | Some m \<Rightarrow> insert m (ended s))"
  by (cases "stream s"; cases c)
     (simp_all add: stopCamera_def stopCamera_closure_def stop_tracks_def commit_def set_refs_def
        effect_cleanup_def camera_panel_def)

theorem stopCamera_idempotent_witness:
  "stopCamera (stopCamera (page streaming_world)) = stopCamera (page streaming_world) \<and>
   stream (stopCamera (page streaming_world)) = None \<and>
   \<not> showCamera (stopCamera (page streaming_world)) \<and>
   ended (stopCamera (page streaming_world)) = {1}"
  using stopCamera_idempotent [of "page streaming_world" None]
  by (simp add: streaming_world_def)

text \<open>
  C9. After \<open>resetForm\<close>, from any state whatever: the form data are \<open>passport\<close> and the
  empty country, the three files and the three previews are null, the error object is
  empty, the step is 1, the state holds no stream and the tracks of the stream it held
  are stopped, and the camera panel is closed; the render that follows only takes the
  camera elements away.
\<close>

theorem resetForm_restores:
  "formData (resetForm s) = \<lparr> documentType = ''passport'', country = '''' \<rparr> \<and>
   documentFrontFile (resetForm s) = None \<and> documentBackFile (resetForm s) = None \<and>
   selfieFile (resetForm s) = None \<and>
   documentFrontPreview (resetForm s) = None \<and> documentBackPreview (resetForm s) = None \<and>
   selfiePreview (resetForm s) = None \<and>
   errors (resetForm s) = [] \<and> object_keys (errors (resetForm s)) = [] \<and>
   currentStep (resetForm s) = 1 \<and> \<not> submitSuccess (resetForm s) \<and>
   cameraError (resetForm s) = None \<and> \<not> showCamera (resetForm s) \<and>
   stream (resetForm s) = None \<and>
   ended (resetForm s) = (case stream s of None \<Rightarrow> ended s | Some m \<Rightarrow> insert m (ended s)) \<and>
   commit s (resetForm s) = (resetForm s)\<lparr>videoRef := None, canvasRef := None\<rparr>"
  by (cases "stream s")
     (simp_all add: resetForm_def stop_tracks_def object_keys_def commit_def set_refs_def
        effect_cleanup_def camera_panel_def)

theorem resetForm_restores_witness:
  "formData (resetForm (page streaming_world)) = \<lparr> documentType = ''passport'', country = '''' \<rparr> \<and>
   documentFrontFile (resetForm (page streaming_world)) = None \<and>
   errors (resetForm (page streaming_world)) = [] \<and>
   stream (resetForm (page streaming_world)) = None \<and>
   ended (resetForm (page streaming_world)) = {1} \<and>
   commit (page streaming_world) (resetForm (page streaming_world)) = initial\<lparr>ended := {1}\<rparr>"
proof -
  have r: "resetForm (page streaming_world) =
      initial\<lparr>ended := {1}, videoRef := Some \<lparr> srcObject = Some 1 \<rparr>,
              canvasRef := Some \<lparr> canvas_width = 300, canvas_height = 150 \<rparr>\<rparr>"
    by (simp add: resetForm_def streaming_world_def initial_def stop_tracks_def)
  show ?thesis
    using resetForm_restores [of "page streaming_world"] r
    by (simp add: streaming_world_def initial_def)
qed

subsection \<open>The camera panel and the selfie preview\<close>

text \<open>
  Every event but the firing of the delayed start keeps the camera panel and the selfie
  preview apart.
\<close>

lemma commit_exclusive: "exclusive (commit s s') = exclusive s'"
  by (simp add: exclusive_def commit_def set_refs_def effect_cleanup_def stop_tracks_def
      split: option.splits)

lemma startCamera_catch_exclusive: "exclusive (startCamera_catch err s)"
  by (simp add: exclusive_def startCamera_catch_def Let_def)

lemma startCamera_exclusive:
  "\<not> truthy (selfiePreview s) \<Longrightarrow> exclusive (fst (startCamera nav s))"
  by (simp add: exclusive_def startCamera_def startCamera_catch_def Let_def split: option.splits)

lemma handleNext_exclusive: "exclusive s \<Longrightarrow> exclusive (fst (handleNext s))"
  by (simp add: exclusive_def handleNext_def validateStep1_def validateStep2_def handleSubmit_def
      Let_def)

lemma startCamera_resume_exclusive: "exclusive s \<Longrightarrow> exclusive (startCamera_resume gum s)"
proof -
  assume e: "exclusive s"
  obtain ms le calls where t: "try_constraints gum constraintsOptions None [] = (ms, le, calls)"
    by (metis prod.collapse)
  show ?thesis
  proof (cases ms)
    case None
    then show ?thesis using t e
      by (cases le) (simp_all add: startCamera_resume_def startCamera_catch_exclusive)
  next
    case (Some m)
    then show ?thesis using t e
      by (simp add: startCamera_resume_def exclusive_def stop_tracks_def Let_def split: option.splits)
  qed
qed

lemma toBlob_callback_exclusive: "exclusive s \<Longrightarrow> exclusive (toBlob_callback cs result payload s)"
  by (cases result; cases cs)
     (simp_all add: exclusive_def toBlob_callback_def stopCamera_closure_def stop_tracks_def Let_def)

lemma capturePhoto_exclusive: "exclusive s \<Longrightarrow> exclusive (fst (capturePhoto env s))"
  by (simp add: exclusive_def capturePhoto_def capture_catch_def Let_def split: option.splits)

lemma exclusive_handle:
  assumes x: "exclusive (page w)" and en: "enabled e w" and nt: "\<forall>nav. e \<noteq> AutoStartFired nav"
  shows "exclusive (fst (fst (handle e (page w))))"
proof (cases e)
  case (InputChanged name v)
  then show ?thesis using x by (simp add: exclusive_def handleInputChange_def Let_def)
next
  case (FilePicked t picked)
  then show ?thesis using x by (simp add: exclusive_def handleFileUpload_def split: option.splits)
next
  case (DocumentRemoved t)
  then show ?thesis using x by (cases t) (simp_all add: exclusive_def removeDocument_def)
next
  case (ReaderLoadEnd t f result)
  then show ?thesis using x by (cases t) (simp_all add: exclusive_def reader_onloadend_def)
next
  case (StartClicked nav)
  then show ?thesis using en by (simp add: startCamera_exclusive)
next
  case (SelfieRemoved nav)
  then show ?thesis by (simp add: removeSelfie_def startCamera_exclusive truthy_def)
next
  case (CaptureClicked env)
  then show ?thesis using x by (simp add: capturePhoto_exclusive)
next
  case CancelClicked
  then show ?thesis
    by (simp add: exclusive_def stopCamera_def stopCamera_closure_def Let_def split: option.splits)
next
  case PreviousClicked
  then show ?thesis using x by (simp add: exclusive_def previousStep_def)
next
  case NextClicked
  then show ?thesis using x by (simp add: handleNext_exclusive)
next
  case ResetClicked
  then show ?thesis by (simp add: exclusive_def resetForm_def Let_def split: option.splits)
next
  case (AutoStartFired nav)
  with nt show ?thesis by simp
next
  case (AcquisitionSettled gum)
  then show ?thesis using x by (simp add: startCamera_resume_exclusive)
next
  case (BlobReady cs result payload)
  then show ?thesis using x by (simp add: toBlob_callback_exclusive)
next
  case SubmitTimerFired
  then show ?thesis using x by (simp add: exclusive_def submit_timer_def)
next
  case VideoPlayRejected
  then show ?thesis using x by (simp add: exclusive_def video_failed_def)
next
  case VideoErrored
  then show ?thesis using x by (simp add: exclusive_def video_failed_def)
qed

lemma exclusive_step:
  assumes "exclusive (page w)" and "enabled e w" and "\<forall>nav. e \<noteq> AutoStartFired nav"
  shows "exclusive (page (step e w))"
proof -
  obtain s' reg used where h: "handle e (page w) = ((s', reg), used)"
    by (metis prod.collapse)
  from exclusive_handle [OF assms] h have "exclusive s'" by simp
  then show ?thesis using h by (simp add: step_def commit_exclusive)
qed

lemma auto_start_after_late_encoder:
  "(case run overtaken_encoder initial_world of
      None \<Rightarrow> False
    | Some w \<Rightarrow> showCamera (page w) \<and>
                selfiePreview (page w) = Some ''data:image/jpeg;base64,BBBB'')"
  using example_navigator_not_android
  by (simp add: overtaken_encoder_def to_streaming_def stopCamera_def previousStep_def run_defs)

text \<open>
  C7. The claim is that the camera panel and a selfie preview are never there together.
  \<open>handleNext\<close> tests \<open>!showCamera && !selfieFile\<close> when it sets the timer, not when the
  timer fires. In the run \<open>overtaken_timer\<close> the selfie is taken between the two, and the
  timer then opens the camera panel over the selfie preview.
\<close>

theorem auto_start_after_capture:
  "(case run overtaken_timer initial_world of
      None \<Rightarrow> False
    | Some w \<Rightarrow> showCamera (page w) \<and>
                selfiePreview (page w) = Some ''data:image/jpeg;base64,BBBB'' \<and>
                \<not> exclusive (page w))"
  using example_navigator_not_android
  by (simp add: overtaken_timer_def exclusive_def run_defs)

end
